theory Spec2Isabelle
  imports Main
begin

section \<open>The Access fixture of the DbManager unit tests\<close>

text \<open>
  The source, \<^verbatim>\<open>UnitTest/Cpp/DbManagerTest.OleDb.Access.h\<close>, declares one managed class:
  \<^verbatim>\<open>
  namespace Cpp { namespace DbManagerTest { namespace OleDb {
      [TestFixture]
      public __gc class Access : public Cpp::DbManagerTest::Test
      {
      public:
          __property String* get_ConfigurationString()
          {
              return "Access.OleDb";
          }
      };
  } } }
  \<close>
  The class has a base class, no data member and one member function, the getter of the
  property \<^verbatim>\<open>ConfigurationString\<close>. The base class \<^verbatim>\<open>Test\<close> is declared in
  another file; what it holds is a type parameter \<open>'b\<close> below, and what it does is a
  parameter wherever a statement depends on it.
\<close>

subsection \<open>Values, outcomes of a call, objects\<close>

text \<open>
  \<^verbatim>\<open>String*\<close> is a pointer to a managed string: either null or a string object.
  The string object is modelled by its characters.
\<close>

datatype 'a gc_ptr = Null | Ptr 'a

text \<open>A managed exception, by the name of its class.\<close>

datatype exn = Exception string

text \<open>
  A call of a member function ends in one of three ways: it returns a value, it throws,
  or it never comes back.
\<close>

datatype 'a outcome = Returns 'a | Throws exn | Diverges

fun fails :: "'a outcome \<Rightarrow> bool" where
  "fails (Throws e) = True"
| "fails (Returns v) = False"
| "fails Diverges = False"

fun terminates :: "'a outcome \<Rightarrow> bool" where
  "terminates Diverges = False"
| "terminates (Returns v) = True"
| "terminates (Throws e) = True"

text \<open>
  An object of class \<^verbatim>\<open>Access\<close> is its \<^verbatim>\<open>Test\<close> subobject and nothing more: the
  class body declares no field.
\<close>

datatype 'b Access = Access (Test_base: 'b)

text \<open>
  A member function takes the object it is called on (\<^verbatim>\<open>this\<close>) and the rest of the
  program state \<open>'w\<close> (other objects, statics, files, the database), and gives the outcome
  of the call together with the object and the rest of the state as the call leaves them.
\<close>

type_synonym ('b, 'w, 'r) member_function = "'b Access \<Rightarrow> 'w \<Rightarrow> 'r outcome \<times> 'b Access \<times> 'w"

subsection \<open>The accessor\<close>

text \<open>
  \<^verbatim>\<open>__property String* get_ConfigurationString() { return "Access.OleDb"; }\<close>

  The body is one return statement of a string literal: it reads and writes neither
  \<^verbatim>\<open>this\<close> nor anything else.
\<close>

definition get_ConfigurationString :: "('b, 'w, string gc_ptr) member_function" where
  "get_ConfigurationString this w = (Returns (Ptr ''Access.OleDb''), this, w)"

subsection \<open>The members of the class\<close>

text \<open>
  A member of a fixture is a string-valued property getter or a method without a result
  (a test, a set-up or a tear-down method).
\<close>

datatype ('b, 'w) member =
  Getter "('b, 'w, string gc_ptr) member_function"
| Test_method "('b, 'w, unit) member_function"

text \<open>
  \<^verbatim>\<open>class Access : public Cpp::DbManagerTest::Test { ... get_ConfigurationString() ... }\<close>

  The members of \<^verbatim>\<open>Access\<close>, by name, are those of its base class, with the one member
  function that the class body declares put at its name. The members of \<^verbatim>\<open>Test\<close>
  are the parameter \<open>Test_members\<close>.
\<close>

definition Access_members :: "(string \<rightharpoonup> ('b, 'w) member) \<Rightarrow> (string \<rightharpoonup> ('b, 'w) member)" where
  "Access_members Test_members =
     Test_members(''get_ConfigurationString'' \<mapsto> Getter get_ConfigurationString)"

text \<open>
  Calling a member by name on an object: the object and the rest of the state as the call
  leaves them. A name that the class does not have changes nothing.
\<close>

fun invoke :: "(string \<rightharpoonup> ('b, 'w) member) \<Rightarrow> string \<Rightarrow> 'b Access \<times> 'w \<Rightarrow> 'b Access \<times> 'w" where
  "invoke members name (this, w) =
     (case members name of
        None \<Rightarrow> (this, w)
      | Some (Getter g) \<Rightarrow> snd (g this w)
      | Some (Test_method m) \<Rightarrow> snd (m this w))"

text \<open>A sequence of calls, one after the other.\<close>

fun run :: "(string \<rightharpoonup> ('b, 'w) member) \<Rightarrow> string list \<Rightarrow> 'b Access \<times> 'w \<Rightarrow> 'b Access \<times> 'w" where
  "run members [] st = st"
| "run members (name # names) st = run members names (invoke members name st)"

text \<open>The configuration identifier that a fixture in a given state hands out.\<close>

definition configuration_identifier :: "'b Access \<times> 'w \<Rightarrow> string gc_ptr outcome" where
  "configuration_identifier st = fst (get_ConfigurationString (fst st) (snd st))"

subsection \<open>The class and its base class\<close>

text \<open>
  What a class declares: the string-valued getters that it declares pure virtual (without
  a body, for a derived class to supply), and its members that have a body, by name.
\<close>

record ('b, 'w) class_decl =
  pure_virtual_getters :: "string list"
  bodies :: "string \<rightharpoonup> ('b, 'w) member"

fun declares :: "('b, 'w) class_decl \<Rightarrow> string \<Rightarrow> bool" where
  "declares c name =
     (name \<in> set (pure_virtual_getters c) \<or>
      (case bodies c name of None \<Rightarrow> False | Some m \<Rightarrow> True))"

text \<open>
  The class body of \<^verbatim>\<open>Access\<close>, as the source has it: one member function, the getter.
\<close>

definition Access_declared :: "(string \<times> ('b, 'w) member) list" where
  "Access_declared = [(''get_ConfigurationString'', Getter get_ConfigurationString)]"

text \<open>
  The members that a class body overrides: those of its own declarations whose name the
  base class declares too. A declaration under a name that the base class does not have
  adds a member and overrides nothing.
\<close>

definition overridden :: "('b, 'w) class_decl \<Rightarrow> (string \<times> ('b, 'w) member) list \<Rightarrow> string list" where
  "overridden base declared = filter (declares base) (map fst declared)"

text \<open>
  Modelled from the spec: the base class \<^verbatim>\<open>Test\<close> is not among the sources. The spec
  describes it as a capability that "defines setup/teardown and parameterized test methods
  expecting a configuration-name accessor", which the fixture has to supply: its contract
  is "a string-returning configuration accessor". \<^verbatim>\<open>Test\<close> is modelled as a class that
  declares that accessor and gives it no body, under the name that the getter of the
  managed property \<^verbatim>\<open>ConfigurationString\<close> has; its other members (set-up, tear-down,
  tests) are the parameter \<open>other\<close>.
\<close>

definition Test_class :: "(string \<rightharpoonup> ('b, 'w) member) \<Rightarrow> ('b, 'w) class_decl" where
  "Test_class other =
     \<lparr>pure_virtual_getters = [''get_ConfigurationString''],
      bodies = other(''get_ConfigurationString'' := None)\<rparr>"

text \<open>
  Modelled from the spec: "string-returning". A getter returns a string when every call of
  it, on every object and in every state, returns a string object: it neither throws nor
  hangs nor returns null.
\<close>

definition returns_string :: "('b, 'w, string gc_ptr) member_function \<Rightarrow> bool" where
  "returns_string g = (\<forall>this w. \<exists>str. fst (g this w) = Returns (Ptr str))"

text \<open>
  Modelled from the spec: a member table meets the contract of a base class when, for each
  getter that the base class leaves pure virtual, it has a string-valued getter under that
  name, and that getter returns a string.
\<close>

definition Test_contract :: "('b, 'w) class_decl \<Rightarrow> (string \<rightharpoonup> ('b, 'w) member) \<Rightarrow> bool" where
  "Test_contract base members =
     list_all
       (\<lambda>name. case members name of
                  Some (Getter g) \<Rightarrow> returns_string g
                | Some (Test_method m) \<Rightarrow> False
                | None \<Rightarrow> False)
       (pure_virtual_getters base)"

section \<open>Properties of the accessor\<close>

lemma get_ConfigurationString_outcome:
  "fst (get_ConfigurationString this w) = Returns (Ptr ''Access.OleDb'')"
  by (simp add: get_ConfigurationString_def)

lemma get_ConfigurationString_state:
  "snd (get_ConfigurationString this w) = (this, w)"
  by (simp add: get_ConfigurationString_def)

text \<open>
  C1: the accessor has no parameter besides the object it is called on, and on every
  object of class Access, in every program state, the call returns the string
  "Access.OleDb", exactly.
\<close>

theorem get_ConfigurationString_returns_Access_OleDb:
  "fst (get_ConfigurationString this w) = Returns (Ptr ''Access.OleDb'')"
  unfolding get_ConfigurationString_def by simp

text \<open>
  C2: the accessor is deterministic. Any two calls, on the same object or on two
  different objects, in the same program state or in two different ones, return equal
  strings: the result depends on no mutable state.
\<close>

theorem get_ConfigurationString_deterministic:
  "fst (get_ConfigurationString this1 w1) = fst (get_ConfigurationString this2 w2)"
  by (simp only: get_ConfigurationString_outcome)

text \<open>
  C3: the accessor cannot fail. Every call returns a string; none throws or ends in any
  other failure.
\<close>

theorem get_ConfigurationString_cannot_fail:
  "\<not> fails (fst (get_ConfigurationString this w)) \<and>
   (\<exists>str. fst (get_ConfigurationString this w) = Returns (Ptr str))"
  by (simp add: get_ConfigurationString_outcome)

text \<open>
  C4: a call of the accessor has no side effect. After the call the object it was called
  on and the rest of the program state are what they were before it.
\<close>

theorem get_ConfigurationString_no_side_effect:
  "snd (get_ConfigurationString this w) = (this, w)"
  unfolding get_ConfigurationString_def by (simp only: snd_conv)

text \<open>
  C6: the accessor is total. On every object and in every program state the call
  terminates.
\<close>

theorem get_ConfigurationString_terminates:
  "terminates (fst (get_ConfigurationString this w))"
  by (simp add: get_ConfigurationString_outcome)

text \<open>
  C8: the accessor never returns a null pointer. The result of every call is a string
  object, and the string is not empty.
\<close>

theorem get_ConfigurationString_not_null_not_empty:
  "fst (get_ConfigurationString this w) \<noteq> Returns Null \<and>
   (\<exists>str. fst (get_ConfigurationString this w) = Returns (Ptr str) \<and> str \<noteq> [])"
  by (simp add: get_ConfigurationString_outcome)

section \<open>Properties of the class\<close>

lemma invoke_Access_identifier:
  "configuration_identifier (invoke members name st) = configuration_identifier st"
  by (simp add: configuration_identifier_def get_ConfigurationString_outcome)

lemma run_Access_identifier:
  "configuration_identifier (run members names st) = configuration_identifier st"
  by (simp add: configuration_identifier_def get_ConfigurationString_outcome)

lemma run_only_accessor:
  "run (Access_members Test_members) (replicate n ''get_ConfigurationString'') st = st"
proof (induction n)
  case 0
  show ?case by simp
next
  case (Suc n)
  have "invoke (Access_members Test_members) ''get_ConfigurationString'' st = st"
    by (cases st) (simp add: Access_members_def get_ConfigurationString_state)
  with Suc show ?case by simp
qed

text \<open>
  C5: the configuration identifier is a constant. It is "Access.OleDb" from the start,
  every operation of the fixture (the accessor itself, and any member inherited from the
  base class, whatever that member does to the object and to the rest of the state)
  leaves it as it was, and so does every sequence of operations.
\<close>

theorem configuration_identifier_immutable:
  "configuration_identifier (this, w) = Returns (Ptr ''Access.OleDb'') \<and>
   configuration_identifier (invoke (Access_members Test_members) name (this, w)) =
     Returns (Ptr ''Access.OleDb'') \<and>
   configuration_identifier (run (Access_members Test_members) names (this, w)) =
     Returns (Ptr ''Access.OleDb'')"
proof -
  have start: "configuration_identifier (this, w) = Returns (Ptr ''Access.OleDb'')"
    by (simp add: configuration_identifier_def get_ConfigurationString_outcome)
  have step: "configuration_identifier (invoke (Access_members Test_members) name (this, w)) =
      configuration_identifier (this, w)"
    by (rule invoke_Access_identifier)
  have steps: "configuration_identifier (run (Access_members Test_members) names (this, w)) =
      configuration_identifier (this, w)"
    by (rule run_Access_identifier)
  from start step steps show ?thesis by simp
qed

lemma Access_members_declared:
  "Access_members Test_members = Test_members ++ map_of Access_declared"
  by (simp add: Access_members_def Access_declared_def fun_eq_iff map_add_def)

lemma returns_string_get_ConfigurationString:
  "returns_string get_ConfigurationString"
  by (simp add: returns_string_def get_ConfigurationString_outcome)

text \<open>
  The two definitions above tell classes apart. Over a base class that does not declare
  the accessor, the class body of Access overrides nothing; the contract of a base class
  that requires another getter is not met by the members of Access; a getter that throws
  does not return a string.
\<close>

lemma overridden_needs_base_declaration:
  "overridden \<lparr>pure_virtual_getters = [], bodies = Map.empty\<rparr> Access_declared = []"
  by (simp add: overridden_def Access_declared_def)

lemma Test_contract_needs_required_getter:
  "\<not> Test_contract \<lparr>pure_virtual_getters = [''get_ConnectionString''], bodies = Map.empty\<rparr>
       (Access_members Map.empty)"
  by (simp add: Test_contract_def Access_members_def)

lemma returns_string_excludes_throw:
  "\<not> returns_string (\<lambda>this w. (Throws e, this, w))"
  by (simp add: returns_string_def)

text \<open>
  C7: the class Access inherits from the base class Test and overrides exactly one of the
  members that Test declares, the configuration accessor: Test declares it, the class body
  of Access gives it its body, and every other name has in Access the member that Test
  gives it. The accessor returns the literal "Access.OleDb", and with it the class meets
  the contract of the base class, a string-returning configuration accessor.
\<close>

theorem Access_overrides_one_accessor:
  "declares (Test_class other) ''get_ConfigurationString'' \<and>
   bodies (Test_class other) ''get_ConfigurationString'' = None \<and>
   overridden (Test_class other) Access_declared = [''get_ConfigurationString''] \<and>
   Access_members (bodies (Test_class other)) =
     bodies (Test_class other) ++ map_of Access_declared \<and>
   Access_members (bodies (Test_class other)) ''get_ConfigurationString'' =
     Some (Getter get_ConfigurationString) \<and>
   (\<forall>name. name \<noteq> ''get_ConfigurationString'' \<longrightarrow>
      Access_members (bodies (Test_class other)) name = other name) \<and>
   fst (get_ConfigurationString this w) = Returns (Ptr ''Access.OleDb'') \<and>
   Test_contract (Test_class other) (Access_members (bodies (Test_class other)))"
proof -
  let ?acc = "''get_ConfigurationString''"
  let ?T = "Test_class other"
  have declared: "declares ?T ?acc"
    by (simp add: Test_class_def)
  have abstract: "bodies ?T ?acc = None"
    by (simp add: Test_class_def)
  have one: "overridden ?T Access_declared = [?acc]"
    using declared by (simp add: overridden_def Access_declared_def)
  have table: "Access_members (bodies ?T) = bodies ?T ++ map_of Access_declared"
    by (rule Access_members_declared)
  have override: "Access_members (bodies ?T) ?acc = Some (Getter get_ConfigurationString)"
    by (simp add: Access_members_def)
  have others: "\<forall>name. name \<noteq> ?acc \<longrightarrow> Access_members (bodies ?T) name = other name"
    by (simp add: Access_members_def Test_class_def)
  have literal: "fst (get_ConfigurationString this w) = Returns (Ptr ''Access.OleDb'')"
    by (rule get_ConfigurationString_outcome)
  have required: "pure_virtual_getters ?T = [?acc]"
    by (simp add: Test_class_def)
  have contract: "Test_contract ?T (Access_members (bodies ?T))"
    unfolding Test_contract_def required
    by (simp add: override returns_string_get_ConfigurationString)
  from declared abstract one table override others literal contract show ?thesis
    by blast
qed

theorem Access_overrides_one_accessor_witness:
  "''SetUp'' \<noteq> ''get_ConfigurationString'' \<and>
   declares
     (Test_class [''SetUp'' \<mapsto> Test_method (\<lambda>(this :: unit Access) (w :: unit). (Returns (), this, w))])
     ''get_ConfigurationString'' \<and>
   overridden
     (Test_class [''SetUp'' \<mapsto> Test_method (\<lambda>(this :: unit Access) (w :: unit). (Returns (), this, w))])
     Access_declared = [''get_ConfigurationString''] \<and>
   Access_members
     (bodies (Test_class [''SetUp'' \<mapsto> Test_method (\<lambda>this w. (Returns (), this, w))]))
     ''SetUp'' =
     Some (Test_method (\<lambda>(this :: unit Access) (w :: unit). (Returns (), this, w))) \<and>
   Access_members
     (bodies (Test_class [''SetUp'' \<mapsto> Test_method (\<lambda>this w. (Returns (), this, w))]))
     ''get_ConfigurationString'' =
     Some (Getter (get_ConfigurationString :: (unit, unit, string gc_ptr) member_function)) \<and>
   Test_contract
     (Test_class [''SetUp'' \<mapsto> Test_method (\<lambda>(this :: unit Access) (w :: unit). (Returns (), this, w))])
     (Access_members
       (bodies (Test_class [''SetUp'' \<mapsto> Test_method (\<lambda>this w. (Returns (), this, w))])))"
proof -
  let ?other = "[''SetUp'' \<mapsto> Test_method (\<lambda>(this :: unit Access) (w :: unit). (Returns (), this, w))]"
  let ?T = "Test_class ?other"
  note fact = Access_overrides_one_accessor [of ?other "Access ()" "()"]
  note rest1 = fact [THEN conjunct2]
  note rest2 = rest1 [THEN conjunct2]
  note rest3 = rest2 [THEN conjunct2]
  note rest4 = rest3 [THEN conjunct2]
  note rest5 = rest4 [THEN conjunct2]
  note rest6 = rest5 [THEN conjunct2]
  have distinct: "''SetUp'' \<noteq> ''get_ConfigurationString''"
    by simp
  have declared: "declares ?T ''get_ConfigurationString''"
    by (rule fact [THEN conjunct1])
  have one: "overridden ?T Access_declared = [''get_ConfigurationString'']"
    by (rule rest2 [THEN conjunct1])
  have override:
    "Access_members (bodies ?T) ''get_ConfigurationString'' = Some (Getter get_ConfigurationString)"
    by (rule rest4 [THEN conjunct1])
  have "Access_members (bodies ?T) ''SetUp'' = ?other ''SetUp''"
    by (rule rest5 [THEN conjunct1, rule_format, OF distinct])
  then have inherited: "Access_members (bodies ?T) ''SetUp'' =
      Some (Test_method (\<lambda>(this :: unit Access) (w :: unit). (Returns (), this, w)))"
    by simp
  have contract: "Test_contract ?T (Access_members (bodies ?T))"
    by (rule rest6 [THEN conjunct2])
  from distinct declared one inherited override contract show ?thesis
    by (intro conjI)
qed

text \<open>
  C9: the class Access declares no data member. An object of the class is determined by
  its Test subobject, and the result of the accessor is the same whatever that subobject
  holds: it depends neither on the object it is called on nor on the state of any object.
\<close>

theorem Access_declares_no_data_member:
  "Access (Test_base this) = this \<and>
   fst (get_ConfigurationString (Access b1) w) = fst (get_ConfigurationString (Access b2) w) \<and>
   fst (get_ConfigurationString this w) = fst (get_ConfigurationString (Access b2) w)"
  by (cases this) (simp add: get_ConfigurationString_outcome)

end
